theory Spec2Isabelle
  imports Main
begin

section \<open>Python values and exceptions\<close>

text \<open>
  The sources are Python 2 (\<^verbatim>\<open>dict.has_key\<close>, \<^verbatim>\<open>payload[0]\<close> of a \<^verbatim>\<open>str\<close> handed
  to \<^verbatim>\<open>struct.unpack\<close>). A Python 2 \<^verbatim>\<open>str\<close> is a sequence of 8-bit characters, which is
  what \<^typ>\<open>string\<close> is. Python integers are unbounded: \<^typ>\<open>int\<close>. A command parameter is
  \<^verbatim>\<open>None\<close> or an integer: \<^typ>\<open>int option\<close>.

  The modules define no exception class of their own; the exceptions that the modelled
  statements can raise are the built-in ones below (\<open>StructError\<close> is \<^verbatim>\<open>struct.error\<close>).
  A computation that raises is \<open>Inl\<close> of the exception, one that returns is \<open>Inr\<close> of the
  value; a function that may return \<^verbatim>\<open>None\<close> returns an \<open>option\<close> inside \<open>Inr\<close>.

  Modelled are the constructors, \<^verbatim>\<open>pack\<close>, the catalog, \<^verbatim>\<open>make_command\<close> and
  \<^verbatim>\<open>parse_command\<close> of ATCommands.py and \<^verbatim>\<open>read_frame\<close> of xbee.py. The methods
  \<^verbatim>\<open>describe\<close>, \<^verbatim>\<open>connect\<close> and \<^verbatim>\<open>send_frame\<close> take no part in the properties below.
\<close>

datatype error =
  UnboundLocalError | StructError | TypeError | AttributeError | IndexError | KeyError

definition and_then :: "error + 'a \<Rightarrow> ('a \<Rightarrow> error + 'b) \<Rightarrow> error + 'b" where
  "and_then r f = (case r of Inl e \<Rightarrow> Inl e | Inr x \<Rightarrow> f x)"


section \<open>The struct module, as far as the sources use it\<close>

text \<open>
  Format \<^verbatim>\<open>2s\<close>: two characters of the argument, cut or padded with null characters.
\<close>

definition pack_2s :: "string \<Rightarrow> string" where
  "pack_2s s = take 2 s @ replicate (2 - length s) (CHR 0x00)"

text \<open>
  Format \<^verbatim>\<open>>I\<close>: an unsigned 32-bit integer, most significant byte first.
  \<^verbatim>\<open>struct.error\<close> is raised for \<^verbatim>\<open>None\<close> and for an integer outside \<open>0 .. 2^32 - 1\<close>.
\<close>

definition pack_I :: "int option \<Rightarrow> error + string" where
  "pack_I v =
     (case v of
        None \<Rightarrow> Inl StructError
      | Some n \<Rightarrow>
          if 0 \<le> n \<and> n \<le> 4294967295
          then Inr [char_of (n div 16777216), char_of (n div 65536), char_of (n div 256), char_of n]
          else Inl StructError)"

text \<open>\<^verbatim>\<open>struct.Struct(">2sI").pack(s, v)\<close>; big-endian formats have no padding.\<close>

definition pack_2sI :: "string \<Rightarrow> int option \<Rightarrow> error + string" where
  "pack_2sI s v = and_then (pack_I v) (\<lambda>bs. Inr (pack_2s s @ bs))"

text \<open>
  \<^verbatim>\<open>struct.Struct(fmt).unpack_from(buffer, offset)[0]\<close> for the formats \<^verbatim>\<open>>B\<close>, \<^verbatim>\<open>>H\<close>
  and \<^verbatim>\<open>>I\<close>: \<^verbatim>\<open>struct.error\<close> when fewer bytes than the format needs follow the offset.
\<close>

definition unpack_from_B :: "string \<Rightarrow> nat \<Rightarrow> error + int" where
  "unpack_from_B buffer offset =
     (if length buffer < offset + 1 then Inl StructError
      else Inr (of_char (buffer ! offset)))"

definition unpack_from_H :: "string \<Rightarrow> nat \<Rightarrow> error + int" where
  "unpack_from_H buffer offset =
     (if length buffer < offset + 2 then Inl StructError
      else Inr (of_char (buffer ! offset) * 256 + of_char (buffer ! (offset + 1))))"

definition unpack_from_I :: "string \<Rightarrow> nat \<Rightarrow> error + int" where
  "unpack_from_I buffer offset =
     (if length buffer < offset + 4 then Inl StructError
      else Inr (of_char (buffer ! offset) * 16777216
              + of_char (buffer ! (offset + 1)) * 65536
              + of_char (buffer ! (offset + 2)) * 256
              + of_char (buffer ! (offset + 3))))"


section \<open>ATCommands.py\<close>

subsection \<open>The classes\<close>

text \<open>
  The four classes derived from \<^verbatim>\<open>ATCommand\<close>. An instance carries its class (which
  selects the \<^verbatim>\<open>pack\<close> method) and the five fields set by \<^verbatim>\<open>ATCommand.__init__\<close>.
\<close>

datatype cls = ATCommandDH | ATCommandDL | ATCommandSH | ATCommandSL

record ATCommand =
  klass :: cls
  command :: string
  param :: "int option"
  name :: string
  category :: string
  descr :: string

definition ATCommand_init ::
  "cls \<Rightarrow> string \<Rightarrow> int option \<Rightarrow> string \<Rightarrow> string \<Rightarrow> string \<Rightarrow> ATCommand" where
  "ATCommand_init k command' param' name' category' descr' =
     \<lparr>klass = k, command = command', param = param', name = name',
      category = category', descr = descr'\<rparr>"

text \<open>The class attributes \<^verbatim>\<open>command\<close>, \<^verbatim>\<open>name\<close>, \<^verbatim>\<open>category\<close> and \<^verbatim>\<open>description\<close>.\<close>

fun cls_command :: "cls \<Rightarrow> string" where
  "cls_command ATCommandDH = ''DH''"
| "cls_command ATCommandDL = ''DL''"
| "cls_command ATCommandSH = ''SH''"
| "cls_command ATCommandSL = ''SL''"

fun cls_name :: "cls \<Rightarrow> string" where
  "cls_name ATCommandDH = ''Destination Address High''"
| "cls_name ATCommandDL = ''Destination Address Low''"
| "cls_name ATCommandSH = ''Serial Number High''"
| "cls_name ATCommandSL = ''Serial Number Low''"

fun cls_category :: "cls \<Rightarrow> string" where
  "cls_category ATCommandDH = ''Addressing''"
| "cls_category ATCommandDL = ''Addressing''"
| "cls_category ATCommandSH = ''Diagnostics''"
| "cls_category ATCommandSL = ''Diagnostics''"

definition nl :: string where
  "nl = [CHR 0x0A]"

fun cls_description :: "cls \<Rightarrow> string" where
  "cls_description ATCommandDH =
     nl @ ''            '' @ nl
     @ ''    Set/Get the upper 32 bits of the 64-bit destination address. '' @ nl
     @ ''    When combined with DL, it defines the 64-bit destination address for data transmission. '' @ nl
     @ ''    Special definitions for DH and DL include 0x000000000000FFFF (broadcast) and 0x0000000000000000 (coordinator).'' @ nl
     @ ''    ''"
| "cls_description ATCommandDL =
     nl @ ''            '' @ nl
     @ ''    Set/Get the lower 32 bits of the 64-bit destination address. '' @ nl
     @ ''    When combined with DH, it defines the 64-bit destination address for data transmissions.'' @ nl
     @ ''    Special definitions for DH and DL include 0x000000000000FFFF (broadcast) and 0x0000000000000000 (coordinator).'' @ nl
     @ ''    ''"
| "cls_description ATCommandSH =
     nl @ ''            '' @ nl
     @ ''    Used to read the high 32 bits of the RF module'' @ [CHR 0x27] @ ''s unique IEEE 64-bit addresss.'' @ nl
     @ ''    The module serial number is set at the factory and is read-only.'' @ nl
     @ ''    ''"
| "cls_description ATCommandSL =
     nl @ ''            '' @ nl
     @ ''    Used to read the low 32 bits of the RF module'' @ [CHR 0x27] @ ''s unique IEEE 64-bit addresss.'' @ nl
     @ ''    The module serial number is set at the factory and is read-only.'' @ nl
     @ ''    ''"

text \<open>
  Calling a class with one argument. \<^verbatim>\<open>ATCommandDH\<close> and \<^verbatim>\<open>ATCommandDL\<close> define
  \<^verbatim>\<open>__init__(self, param)\<close>, which calls \<^verbatim>\<open>ATCommand.__init__\<close> with the class
  attributes. \<^verbatim>\<open>ATCommandSH\<close> and \<^verbatim>\<open>ATCommandSL\<close> define neither \<^verbatim>\<open>__init__\<close> nor
  \<^verbatim>\<open>pack\<close>: \<^verbatim>\<open>pack\<close> stays abstract (\<^verbatim>\<open>abc.ABCMeta\<close>), and instantiating them raises
  \<^verbatim>\<open>TypeError\<close>.
\<close>

fun new :: "cls \<Rightarrow> int option \<Rightarrow> error + ATCommand" where
  "new ATCommandDH param' =
     Inr (ATCommand_init ATCommandDH (cls_command ATCommandDH) param' (cls_name ATCommandDH)
            (cls_category ATCommandDH) (cls_description ATCommandDH))"
| "new ATCommandDL param' =
     Inr (ATCommand_init ATCommandDL (cls_command ATCommandDL) param' (cls_name ATCommandDL)
            (cls_category ATCommandDL) (cls_description ATCommandDL))"
| "new ATCommandSH param' = Inl TypeError"
| "new ATCommandSL param' = Inl TypeError"

text \<open>
  The methods \<^verbatim>\<open>pack\<close>. The one of the base class is abstract and its body is a bare
  \<^verbatim>\<open>return\<close> (it returns \<^verbatim>\<open>None\<close>); the ones of \<^verbatim>\<open>ATCommandDH\<close> and \<^verbatim>\<open>ATCommandDL\<close> call
  the class's \<^verbatim>\<open>packer\<close>, \<^verbatim>\<open>struct.Struct(">2sI")\<close>, on the instance's fields.
\<close>

definition ATCommand_pack :: "ATCommand \<Rightarrow> error + string option" where
  "ATCommand_pack self = Inr None"

definition ATCommandDH_pack :: "ATCommand \<Rightarrow> error + string option" where
  "ATCommandDH_pack self =
     and_then (pack_2sI (command self) (param self)) (\<lambda>buf. Inr (Some buf))"

definition ATCommandDL_pack :: "ATCommand \<Rightarrow> error + string option" where
  "ATCommandDL_pack self =
     and_then (pack_2sI (command self) (param self)) (\<lambda>buf. Inr (Some buf))"

definition pack :: "ATCommand \<Rightarrow> error + string option" where
  "pack self =
     (case klass self of
        ATCommandDH \<Rightarrow> ATCommandDH_pack self
      | ATCommandDL \<Rightarrow> ATCommandDL_pack self
      | ATCommandSH \<Rightarrow> ATCommand_pack self
      | ATCommandSL \<Rightarrow> ATCommand_pack self)"

text \<open>
  The class attributes \<^verbatim>\<open>unpacker1\<close>, \<^verbatim>\<open>unpacker2\<close> and \<^verbatim>\<open>unpacker4\<close> with their method
  \<^verbatim>\<open>unpack_from(payload, offset)[0]\<close>. Only \<^verbatim>\<open>ATCommandDH\<close> and \<^verbatim>\<open>ATCommandDL\<close> have
  them; reading them from the other two classes raises \<^verbatim>\<open>AttributeError\<close>.
\<close>

fun unpacker1 :: "cls \<Rightarrow> error + (string \<Rightarrow> nat \<Rightarrow> error + int)" where
  "unpacker1 ATCommandDH = Inr unpack_from_B"
| "unpacker1 ATCommandDL = Inr unpack_from_B"
| "unpacker1 ATCommandSH = Inl AttributeError"
| "unpacker1 ATCommandSL = Inl AttributeError"

fun unpacker2 :: "cls \<Rightarrow> error + (string \<Rightarrow> nat \<Rightarrow> error + int)" where
  "unpacker2 ATCommandDH = Inr unpack_from_H"
| "unpacker2 ATCommandDL = Inr unpack_from_H"
| "unpacker2 ATCommandSH = Inl AttributeError"
| "unpacker2 ATCommandSL = Inl AttributeError"

fun unpacker4 :: "cls \<Rightarrow> error + (string \<Rightarrow> nat \<Rightarrow> error + int)" where
  "unpacker4 ATCommandDH = Inr unpack_from_I"
| "unpacker4 ATCommandDL = Inr unpack_from_I"
| "unpacker4 ATCommandSH = Inl AttributeError"
| "unpacker4 ATCommandSL = Inl AttributeError"


subsection \<open>The catalog and the two factory functions\<close>

definition ATCommands :: "string \<rightharpoonup> cls" where
  "ATCommands = [''DH'' \<mapsto> ATCommandDH, ''DL'' \<mapsto> ATCommandDL]"

text \<open>
  \<^verbatim>\<open>make_command\<close>: the instance when \<^verbatim>\<open>cmd\<close> is a key of the catalog, else \<^verbatim>\<open>None\<close>.
\<close>

definition make_command :: "string \<Rightarrow> int option \<Rightarrow> error + ATCommand option" where
  "make_command cmd param' =
     (case ATCommands cmd of
        Some k \<Rightarrow> and_then (new k param') (\<lambda>c. Inr (Some c))
      | None \<Rightarrow> Inr None)"

text \<open>
  \<^verbatim>\<open>parse_command\<close>. The local variable \<^verbatim>\<open>param\<close> is assigned in the three branches of
  the \<^verbatim>\<open>if\<close>/\<^verbatim>\<open>elif\<close> chain only; the chain has no \<^verbatim>\<open>else\<close>. \<open>assigned\<close> below is the
  state of that variable after the chain: \<open>None\<close> when no branch ran, and then reading it
  in \<^verbatim>\<open>ATCommands[cmd](param)\<close> raises \<^verbatim>\<open>UnboundLocalError\<close>.
\<close>

definition parse_command :: "string \<Rightarrow> string \<Rightarrow> error + ATCommand option" where
  "parse_command cmd payload =
     (case ATCommands cmd of
        Some k \<Rightarrow>
          (let offset = (4::nat);
               paramsz = int (length payload) - int offset;
               assigned =
                 (if paramsz = 1 then
                    and_then (unpacker1 k) (\<lambda>u. and_then (u payload offset) (\<lambda>v. Inr (Some v)))
                  else if paramsz = 2 then
                    and_then (unpacker2 k) (\<lambda>u. and_then (u payload offset) (\<lambda>v. Inr (Some v)))
                  else if paramsz = 4 then
                    and_then (unpacker4 k) (\<lambda>u. and_then (u payload offset) (\<lambda>v. Inr (Some v)))
                  else Inr None)
           in and_then assigned
                (\<lambda>a. case a of
                        None \<Rightarrow> Inl UnboundLocalError
                      | Some v \<Rightarrow> and_then (new k (Some v)) (\<lambda>c. Inr (Some c))))
      | None \<Rightarrow> Inr None)"


section \<open>xbee.py\<close>

text \<open>
  The serial connection \<^verbatim>\<open>self.cxn\<close> is opened by \<^verbatim>\<open>serial.Serial(name)\<close>, without a
  timeout: \<^verbatim>\<open>read(n)\<close> blocks until \<open>n\<close> bytes have arrived. The state of the connection
  is the sequence of bytes still to arrive; \<open>read n\<close> returns the bytes read and the new
  state, or \<open>None\<close> when fewer than \<open>n\<close> bytes ever arrive (the call does not return).
\<close>

definition read :: "nat \<Rightarrow> string \<Rightarrow> (string \<times> string) option" where
  "read n cxn = (if n \<le> length cxn then Some (take n cxn, drop n cxn) else None)"

text \<open>\<^verbatim>\<open>XBee.unpacker.unpack_from(header)\<close>, format \<^verbatim>\<open>>BH\<close>.\<close>

definition unpack_from_BH :: "string \<Rightarrow> error + int \<times> int" where
  "unpack_from_BH buffer =
     (if length buffer < 3 then Inl StructError
      else Inr (of_char (buffer ! 0), of_char (buffer ! 1) * 256 + of_char (buffer ! 2)))"

text \<open>\<^verbatim>\<open>struct.unpack(">B", s)[0]\<close>: the argument must hold exactly one byte.\<close>

definition unpack_B :: "string \<Rightarrow> error + int" where
  "unpack_B s = (if length s \<noteq> 1 then Inl StructError else Inr (of_char (s ! 0)))"

text \<open>\<^verbatim>\<open>payload[0]\<close> on a \<^verbatim>\<open>str\<close>: a one-character \<^verbatim>\<open>str\<close>, or \<^verbatim>\<open>IndexError\<close>.\<close>

definition item0 :: "string \<Rightarrow> error + string" where
  "item0 s = (case s of [] \<Rightarrow> Inl IndexError | c # _ \<Rightarrow> Inr [c])"

text \<open>
  \<^verbatim>\<open>ZigBeeAPIFrames\<close> comes from \<^verbatim>\<open>from zigbee import *\<close>; the module \<^verbatim>\<open>zigbee\<close> is not
  part of the sources. \<^verbatim>\<open>read_frame\<close> subscripts it with the frame type and calls the
  result with \<^verbatim>\<open>(payload, chksum)\<close>, so it is taken as a parameter: a dictionary from
  frame type to a frame class, a frame class being whatever its call on
  \<^verbatim>\<open>(payload, chksum)\<close> raises or returns.
\<close>

type_synonym 'r frame_class = "string \<Rightarrow> string \<Rightarrow> error + 'r"

definition read_frame ::
  "(int \<rightharpoonup> 'r frame_class) \<Rightarrow> string \<Rightarrow> ((error + 'r) \<times> string) option" where
  "read_frame ZigBeeAPIFrames cxn =
     (case read 3 cxn of
        None \<Rightarrow> None
      | Some (header, cxn1) \<Rightarrow>
          (case unpack_from_BH header of
             Inl e \<Rightarrow> Some (Inl e, cxn1)
           | Inr (SOM, sz) \<Rightarrow>
               (case read (nat sz) cxn1 of
                  None \<Rightarrow> None
                | Some (payload, cxn2) \<Rightarrow>
                    (case read 1 cxn2 of
                       None \<Rightarrow> None
                     | Some (chksum, cxn3) \<Rightarrow>
                         Some (and_then (item0 payload) (\<lambda>p0.
                               and_then (unpack_B p0) (\<lambda>frametype.
                                 case ZigBeeAPIFrames frametype of
                                   None \<Rightarrow> Inl KeyError
                                 | Some frame \<Rightarrow> frame payload chksum)),
                               cxn3)))))"


section \<open>Notions used to state the properties\<close>

text \<open>The unsigned integer that a byte sequence denotes, most significant byte first.\<close>

definition big_endian :: "string \<Rightarrow> int" where
  "big_endian bs = foldl (\<lambda>acc c. acc * 256 + of_char c) 0 bs"


text \<open>
  A registry with a single frame class, for frame type \<open>0x88\<close>, whose call on
  \<^verbatim>\<open>(payload, chksum)\<close> stores the two arguments and raises nothing.
\<close>

definition storing_frames :: "int \<rightharpoonup> (string \<times> string) frame_class" where
  "storing_frames = [136 \<mapsto> (\<lambda>payload chksum. Inr (payload, chksum))]"


section \<open>Auxiliary facts\<close>

subsection \<open>Big-endian bytes\<close>

lemma be32:
  fixes n :: int
  assumes "0 \<le> n" and "n \<le> 4294967295"
  shows "(n div 16777216) mod 256 * 16777216 + (n div 65536) mod 256 * 65536
          + (n div 256) mod 256 * 256 + n mod 256 = n"
proof -
  define q1 where "q1 = n div 256"
  define q2 where "q2 = q1 div 256"
  define q3 where "q3 = q2 div 256"
  have a: "n div 65536 = q2" and b: "n div 16777216 = q3"
    by (simp_all add: q1_def q2_def q3_def div_mult2_eq[symmetric])
  have "0 \<le> q3" and "q3 < 256"
    using assms by (simp_all add: b[symmetric])
  then have e: "q3 mod 256 = q3" by simp
  have s1: "n = 256 * q1 + n mod 256" unfolding q1_def by simp
  have s2: "q1 = 256 * q2 + q1 mod 256" unfolding q2_def by simp
  have s3: "q2 = 256 * q3 + q2 mod 256" unfolding q3_def by simp
  show ?thesis
    unfolding a b e q1_def[symmetric] using s1 s2 s3 by linarith
qed

lemma unpack_from_I_append:
  "unpack_from_I (pre @ [c0, c1, c2, c3]) (length pre) =
     Inr (of_char c0 * 16777216 + of_char c1 * 65536 + of_char c2 * 256 + of_char c3)"
  by (simp add: unpack_from_I_def nth_append)

lemma pack_I_Some:
  "0 \<le> n \<Longrightarrow> n \<le> 4294967295 \<Longrightarrow>
   pack_I (Some n) =
     Inr [char_of (n div 16777216), char_of (n div 65536), char_of (n div 256), char_of n]"
  by (simp only: pack_I_def option.case simp_thms if_True)

lemma big_endian_simps:
  "big_endian [a] = of_char a"
  "big_endian [a, b] = of_char a * 256 + of_char b"
  "big_endian [a, b, c, d] =
     of_char a * 16777216 + of_char b * 65536 + of_char c * 256 + of_char d"
  by (simp_all add: big_endian_def)

lemma drop4_of_5: "length payload = 5 \<Longrightarrow> drop 4 payload = [payload ! 4]"
  by (simp add: list_eq_iff_nth_eq)

lemma drop4_of_6: "length payload = 6 \<Longrightarrow> drop 4 payload = [payload ! 4, payload ! 5]"
  by (auto simp add: list_eq_iff_nth_eq nth_Cons' less_Suc_eq numeral_2_eq_2)

lemma drop4_of_8:
  "length payload = 8 \<Longrightarrow>
     drop 4 payload = [payload ! 4, payload ! 5, payload ! 6, payload ! 7]"
  by (auto simp add: list_eq_iff_nth_eq nth_Cons' less_Suc_eq numeral_Bit0 numeral_2_eq_2
      eval_nat_numeral)

subsection \<open>The registered classes\<close>

lemma registered_cases:
  "ATCommands cmd = Some k \<Longrightarrow>
     (cmd = ''DH'' \<and> k = ATCommandDH) \<or> (cmd = ''DL'' \<and> k = ATCommandDL)"
  by (auto simp add: ATCommands_def split: if_splits)

lemma new_registered:
  "ATCommands cmd = Some k \<Longrightarrow>
     new k v = Inr (ATCommand_init k cmd v (cls_name k) (cls_category k) (cls_description k))"
  by (drule registered_cases) (elim disjE conjE; simp)

lemma unpackers_registered:
  assumes "ATCommands cmd = Some k"
  shows "unpacker1 k = Inr unpack_from_B" and "unpacker2 k = Inr unpack_from_H"
    and "unpacker4 k = Inr unpack_from_I"
  using registered_cases[OF assms] by auto

lemma make_command_registered:
  "ATCommands cmd = Some k \<Longrightarrow>
     make_command cmd v =
       Inr (Some (ATCommand_init k cmd v (cls_name k) (cls_category k) (cls_description k)))"
  by (simp add: make_command_def new_registered and_then_def)

lemma pack_registered:
  assumes "ATCommands cmd = Some k"
  shows "pack (ATCommand_init k cmd v n c d) =
           and_then (pack_I v) (\<lambda>bs. Inr (Some (cmd @ bs)))"
  using registered_cases[OF assms]
  by (auto simp add: pack_def ATCommand_init_def ATCommandDH_pack_def ATCommandDL_pack_def
      pack_2sI_def pack_2s_def and_then_def split: sum.splits)

lemma pack_present:
  assumes "ATCommands cmd = Some k" and "0 \<le> p" and "p < 2 ^ 32"
  shows "\<exists>c bs. make_command cmd (Some p) = Inr (Some c)
            \<and> pack c = Inr (Some (cmd @ bs)) \<and> length bs = 4 \<and> big_endian bs = p"
proof -
  let ?bs = "[char_of (p div 16777216), char_of (p div 65536), char_of (p div 256), char_of p]"
  have range: "0 \<le> p" "p \<le> 4294967295"
    using assms(2,3) by simp_all
  have "big_endian ?bs = p"
    by (simp only: big_endian_simps of_char_of be32[OF range])
  moreover have "pack (ATCommand_init k cmd (Some p) (cls_name k) (cls_category k)
                   (cls_description k)) = Inr (Some (cmd @ ?bs))"
    by (simp add: pack_registered[OF assms(1)] pack_I_Some[OF range] and_then_def)
  moreover have "length ?bs = 4"
    by simp
  ultimately show ?thesis
    using make_command_registered[OF assms(1), of "Some p"] by blast
qed

subsection \<open>parse\_command by payload length\<close>

lemma parse_command_1:
  assumes "ATCommands cmd = Some k" and "length payload = 5"
  shows "parse_command cmd payload = make_command cmd (Some (of_char (payload ! 4)))"
  using assms
  by (simp add: parse_command_def make_command_def unpackers_registered[OF assms(1)]
      and_then_def unpack_from_B_def)

lemma parse_command_2:
  assumes "ATCommands cmd = Some k" and "length payload = 6"
  shows "parse_command cmd payload =
           make_command cmd (Some (of_char (payload ! 4) * 256 + of_char (payload ! 5)))"
  using assms
  by (simp add: parse_command_def make_command_def unpackers_registered[OF assms(1)]
      and_then_def unpack_from_H_def)

lemma parse_command_4:
  assumes "ATCommands cmd = Some k" and "length payload = 8"
  shows "parse_command cmd payload =
           make_command cmd
             (Some (of_char (payload ! 4) * 16777216 + of_char (payload ! 5) * 65536
                    + of_char (payload ! 6) * 256 + of_char (payload ! 7)))"
  using assms
  by (simp add: parse_command_def make_command_def unpackers_registered[OF assms(1)]
      and_then_def unpack_from_I_def)

lemma parse_command_other:
  assumes "ATCommands cmd = Some k"
    and "length payload \<noteq> 5" and "length payload \<noteq> 6" and "length payload \<noteq> 8"
  shows "parse_command cmd payload = Inl UnboundLocalError"
  using assms
  by (simp add: parse_command_def and_then_def)


subsection \<open>read\_frame on a complete frame\<close>

lemma list3: "length xs = 3 \<Longrightarrow> \<exists>a b c. xs = [a, b, c]"
  by (cases xs; simp; rename_tac ys; case_tac ys; simp; rename_tac zs; case_tac zs; simp)

lemma list1: "length xs = 1 \<Longrightarrow> \<exists>a. xs = [a]"
  by (cases xs) auto

lemma read_frame_bytes:
  assumes "length payload = nat (of_char hi * 256 + of_char lo)"
  shows "read_frame ZigBeeAPIFrames (som # hi # lo # payload @ c # rest) =
           Some (case payload of
                   [] \<Rightarrow> Inl IndexError
                 | b # _ \<Rightarrow>
                     (case ZigBeeAPIFrames (of_char b) of
                        None \<Rightarrow> Inl KeyError
                      | Some frame \<Rightarrow> frame payload [c]),
                 rest)"
proof -
  let ?sz = "nat (of_char hi * 256 + of_char lo)"
  have r1: "read 3 (som # hi # lo # payload @ c # rest) =
              Some ([som, hi, lo], payload @ c # rest)"
    by (simp add: read_def)
  have u: "unpack_from_BH [som, hi, lo] = Inr (of_char som, of_char hi * 256 + of_char lo)"
    by (simp add: unpack_from_BH_def)
  have r2: "read ?sz (payload @ c # rest) = Some (payload, c # rest)"
    using assms by (simp add: read_def)
  have r3: "read 1 (c # rest) = Some ([c], rest)"
    by (simp add: read_def)
  have d: "and_then (item0 payload) (\<lambda>p0. and_then (unpack_B p0) (\<lambda>frametype.
              case ZigBeeAPIFrames frametype of
                None \<Rightarrow> Inl KeyError
              | Some frame \<Rightarrow> frame payload [c]))
           = (case payload of
                [] \<Rightarrow> Inl IndexError
              | b # _ \<Rightarrow>
                  (case ZigBeeAPIFrames (of_char b) of
                     None \<Rightarrow> Inl KeyError
                   | Some frame \<Rightarrow> frame payload [c]))"
    by (simp add: item0_def unpack_B_def and_then_def split: list.splits)
  show ?thesis
    unfolding read_frame_def r1 option.case prod.case u sum.case r2 r3 d ..
qed

lemma read_frame_empty_payload:
  "read_frame ZigBeeAPIFrames (som # CHR 0x00 # CHR 0x00 # c # rest) =
     Some (Inl IndexError, rest)"
  using read_frame_bytes[of "[]" "CHR 0x00" "CHR 0x00" ZigBeeAPIFrames som c rest]
  by simp



section \<open>The properties\<close>

text \<open>
  C1. For a code registered in the catalog and a parameter \<open>p\<close> with \<open>0 \<le> p < 2^32\<close>,
  \<^verbatim>\<open>make_command(cmd, p)\<close> returns a command with that code and parameter, its \<^verbatim>\<open>pack()\<close>
  returns a buffer, and \<^verbatim>\<open>parse_command\<close> on the payload made of a frame-type byte, a
  frame-id byte and that buffer returns the same command again.
\<close>

theorem pack_parse_roundtrip:
  assumes "ATCommands cmd = Some k" and "0 \<le> p" and "p < 2 ^ 32"
  shows "\<exists>c buf. make_command cmd (Some p) = Inr (Some c)
            \<and> command c = cmd \<and> param c = Some p
            \<and> pack c = Inr (Some buf)
            \<and> parse_command cmd (frametype # frameid # buf) = Inr (Some c)"
proof -
  let ?c = "ATCommand_init k cmd (Some p) (cls_name k) (cls_category k) (cls_description k)"
  let ?bs = "[char_of (p div 16777216), char_of (p div 65536), char_of (p div 256), char_of p]"
  have range: "0 \<le> p" "p \<le> 4294967295"
    using assms(2,3) by simp_all
  have len: "length cmd = 2"
    using registered_cases[OF assms(1)] by auto
  have mk: "make_command cmd (Some p) = Inr (Some ?c)"
    by (rule make_command_registered[OF assms(1)])
  have fields: "command ?c = cmd" "param ?c = Some p"
    by (simp_all add: ATCommand_init_def)
  have pk: "pack ?c = Inr (Some (cmd @ ?bs))"
    by (simp add: pack_registered[OF assms(1)] pack_I_Some[OF range] and_then_def)
  have "unpack_from_I ((frametype # frameid # cmd) @ ?bs)
          (length (frametype # frameid # cmd)) = Inr p"
    by (simp only: unpack_from_I_append of_char_of be32[OF range])
  then have un: "unpack_from_I (frametype # frameid # cmd @ ?bs) 4 = Inr p"
    using len by simp
  have "parse_command cmd (frametype # frameid # cmd @ ?bs) = make_command cmd (Some p)"
    using assms(1) len un
    by (simp add: parse_command_def make_command_def unpackers_registered[OF assms(1)]
        and_then_def)
  with mk fields pk show ?thesis by metis
qed

theorem pack_parse_roundtrip_witness:
  "ATCommands ''DH'' = Some ATCommandDH \<and> (0::int) \<le> 305419896 \<and> (305419896::int) < 2 ^ 32
   \<and> (\<exists>c buf. make_command ''DH'' (Some 305419896) = Inr (Some c)
            \<and> command c = ''DH'' \<and> param c = Some 305419896
            \<and> pack c = Inr (Some buf)
            \<and> parse_command ''DH'' (CHR 0x08 # CHR 0x01 # buf) = Inr (Some c))"
  using pack_parse_roundtrip[of "''DH''" ATCommandDH 305419896 "CHR 0x08" "CHR 0x01"]
  by (simp add: ATCommands_def)

text \<open>
  C7. \<^verbatim>\<open>make_command("DH", 0x0000FFFF).pack()\<close> returns the six bytes
  \<open>44 48 00 00 FF FF\<close>.
\<close>

theorem pack_DH_broadcast:
  "\<exists>c. make_command ''DH'' (Some 0x0000FFFF) = Inr (Some c)
     \<and> pack c = Inr (Some [CHR 0x44, CHR 0x48, CHR 0x00, CHR 0x00, CHR 0xFF, CHR 0xFF])"
  by (simp add: make_command_def ATCommands_def and_then_def ATCommand_init_def pack_def
      ATCommandDH_pack_def pack_2sI_def pack_I_def pack_2s_def char_of_def)

text \<open>
  C9. \<^verbatim>\<open>parse_command\<close> does not look at the first four bytes of the payload: for a
  registered \<^verbatim>\<open>cmd\<close> and a payload of length 4 + 1, 4 + 2 or 4 + 4 it returns a command
  whose code is \<^verbatim>\<open>cmd\<close> and whose parameter is the big-endian value of \<^verbatim>\<open>payload[4:]\<close>,
  and it returns the same command when the first four bytes are replaced by any other
  four bytes.
\<close>

theorem parse_command_ignores_header:
  assumes "ATCommands cmd = Some k"
    and "int (length payload) - 4 \<in> {1, 2, 4}"
    and "length header = 4"
  shows "\<exists>c. parse_command cmd payload = Inr (Some c)
            \<and> command c = cmd
            \<and> param c = Some (big_endian (drop 4 payload))
            \<and> parse_command cmd (header @ drop 4 payload) = Inr (Some c)"
proof -
  let ?c = "ATCommand_init k cmd (Some (big_endian (drop 4 payload)))
              (cls_name k) (cls_category k) (cls_description k)"
  have fields: "command ?c = cmd" "param ?c = Some (big_endian (drop 4 payload))"
    by (simp_all add: ATCommand_init_def)
  have mk: "make_command cmd (Some (big_endian (drop 4 payload))) = Inr (Some ?c)"
    by (rule make_command_registered[OF assms(1)])
  have *: "parse_command cmd q = make_command cmd (Some (big_endian (drop 4 payload)))"
    if "length q = length payload" and "drop 4 q = drop 4 payload" for q
  proof -
    from assms(2) that(1) consider "length q = 5" | "length q = 6" | "length q = 8"
      by auto
    then show ?thesis
    proof cases
      case 1
      show ?thesis
        using parse_command_1[OF assms(1) 1] drop4_of_5[OF 1] that(2)
        by (simp add: big_endian_simps)
    next
      case 2
      show ?thesis
        using parse_command_2[OF assms(1) 2] drop4_of_6[OF 2] that(2)
        by (simp add: big_endian_simps)
    next
      case 3
      show ?thesis
        using parse_command_4[OF assms(1) 3] drop4_of_8[OF 3] that(2)
        by (simp add: big_endian_simps)
    qed
  qed
  have "4 \<le> length payload"
    using assms(2) by auto
  then have "length (header @ drop 4 payload) = length payload"
    and "drop 4 (header @ drop 4 payload) = drop 4 payload"
    using assms(3) by simp_all
  then have "parse_command cmd (header @ drop 4 payload) = Inr (Some ?c)"
    using * mk by simp
  moreover have "parse_command cmd payload = Inr (Some ?c)"
    using * mk by simp
  ultimately show ?thesis using fields by blast
qed

theorem parse_command_ignores_header_witness:
  "ATCommands ''DL'' = Some ATCommandDL
   \<and> int (length [CHR 0x00, CHR 0x00, CHR ''Z'', CHR ''Z'', CHR 0x12, CHR 0x34]) - 4 \<in> {1, 2, 4}
   \<and> length [CHR 0x88, CHR 0x01, CHR ''D'', CHR ''L''] = 4
   \<and> (\<exists>c. parse_command ''DL'' [CHR 0x00, CHR 0x00, CHR ''Z'', CHR ''Z'', CHR 0x12, CHR 0x34]
              = Inr (Some c)
          \<and> command c = ''DL''
          \<and> param c = Some 0x1234
          \<and> parse_command ''DL'' [CHR 0x88, CHR 0x01, CHR ''D'', CHR ''L'', CHR 0x12, CHR 0x34]
              = Inr (Some c))"
  using parse_command_ignores_header[of "''DL''" ATCommandDL
      "[CHR 0x00, CHR 0x00, CHR ''Z'', CHR ''Z'', CHR 0x12, CHR 0x34]"
      "[CHR 0x88, CHR 0x01, CHR ''D'', CHR ''L'']"]
  by (simp add: ATCommands_def big_endian_def)

text \<open>
  C2. For a registered code and a payload whose length minus 4 is not 1, 2 or 4,
  \<^verbatim>\<open>parse_command\<close> should fail with a dedicated error for the unsupported width. The
  \<^verbatim>\<open>if\<close>/\<^verbatim>\<open>elif\<close> chain has no branch for such a width and leaves \<^verbatim>\<open>param\<close> unassigned,
  so the call ends in \<^verbatim>\<open>UnboundLocalError\<close> (for every such payload, by
  \<open>parse_command_other\<close>). Evaluated here on the four-byte payload of a bare query,
  \<open>88 01 44 48\<close>.
\<close>

theorem parse_command_bare_query_unbound:
  "parse_command ''DH'' [CHR 0x88, CHR 0x01, CHR ''D'', CHR ''H''] = Inl UnboundLocalError"
  by (simp add: parse_command_def ATCommands_def and_then_def)

text \<open>
  C3, as stated: \<^verbatim>\<open>make_command\<close> with an unregistered code fails with an error. It does
  not: \<^verbatim>\<open>make_command("ZZ", 0)\<close> returns \<^verbatim>\<open>None\<close>.
\<close>

theorem make_command_ZZ_returns_None:
  "make_command ''ZZ'' (Some 0) = Inr None"
  by (simp add: make_command_def ATCommands_def)

text \<open>
  C3, amended: for every code that is not a key of the catalog and any parameter, the
  lookup gives the absent marker and \<^verbatim>\<open>make_command\<close> returns \<^verbatim>\<open>None\<close>, raising nothing.
\<close>

theorem make_command_unregistered:
  "cmd \<notin> dom ATCommands \<Longrightarrow> ATCommands cmd = None \<and> make_command cmd param' = Inr None"
  by (auto simp add: make_command_def)

theorem make_command_unregistered_witness:
  "''ZZ'' \<notin> dom ATCommands
   \<and> ATCommands ''ZZ'' = None \<and> make_command ''ZZ'' (Some 0x0000FFFF) = Inr None"
  using make_command_unregistered[of "''ZZ''" "Some 0x0000FFFF"]
  by (simp add: ATCommands_def dom_def)

text \<open>
  C4. A command built with an absent parameter (the query form, which the docstrings of
  \<^verbatim>\<open>ATCommand.__init__\<close> and \<^verbatim>\<open>make_command\<close> describe as \<^verbatim>\<open>param = None\<close>) should pack to its
  two code bytes. \<^verbatim>\<open>make_command("DH", None).pack()\<close> hands \<^verbatim>\<open>None\<close> to the format \<^verbatim>\<open>I\<close> and
  raises \<^verbatim>\<open>struct.error\<close> instead. (With a parameter in range the two code bytes and the
  four big-endian bytes are emitted: \<open>pack_present\<close>.)
\<close>

theorem pack_query_raises:
  "\<exists>c. make_command ''DH'' None = Inr (Some c) \<and> param c = None \<and> pack c = Inl StructError"
  by (simp add: make_command_def ATCommands_def and_then_def ATCommand_init_def pack_def
      ATCommandDH_pack_def pack_2sI_def pack_I_def)

text \<open>
  C5, as stated: each of DH, DL, SH and SL is registered. SH is not: the lookup gives the
  absent marker and \<^verbatim>\<open>make_command("SH", None)\<close> returns \<^verbatim>\<open>None\<close>.
\<close>

theorem SH_not_registered:
  "ATCommands ''SH'' = None \<and> make_command ''SH'' None = Inr None"
  by (simp add: make_command_def ATCommands_def)

text \<open>
  C5, amended: DH and DL are registered, and for each of them \<^verbatim>\<open>make_command\<close> returns
  an instance of its class with the code, the given parameter and the class's name,
  category and description; SH and SL are not registered, their lookup gives the absent
  marker and \<^verbatim>\<open>make_command\<close> returns \<^verbatim>\<open>None\<close> for them.
\<close>

theorem catalog_DH_DL_only:
  "ATCommands ''DH'' = Some ATCommandDH \<and> ATCommands ''DL'' = Some ATCommandDL
   \<and> ATCommands ''SH'' = None \<and> ATCommands ''SL'' = None
   \<and> make_command ''DH'' p =
        Inr (Some \<lparr>klass = ATCommandDH, command = ''DH'', param = p,
                   name = ''Destination Address High'', category = ''Addressing'',
                   descr = cls_description ATCommandDH\<rparr>)
   \<and> make_command ''DL'' p =
        Inr (Some \<lparr>klass = ATCommandDL, command = ''DL'', param = p,
                   name = ''Destination Address Low'', category = ''Addressing'',
                   descr = cls_description ATCommandDL\<rparr>)
   \<and> make_command ''SH'' p = Inr None \<and> make_command ''SL'' p = Inr None"
  by (simp add: make_command_def ATCommands_def and_then_def ATCommand_init_def)




text \<open>
  C8. \<^verbatim>\<open>read_frame\<close> takes from the connection, in this order, three header bytes (a
  one-byte start marker and a two-byte big-endian length), as many payload bytes as the
  length says, and one checksum byte, and leaves the rest of the stream untouched. It
  then takes \<^verbatim>\<open>payload[0]\<close> as the frame type and calls the entry of the registry under
  that key with the payload and the checksum byte; an empty payload ends in
  \<^verbatim>\<open>IndexError\<close> and a frame type without entry in \<^verbatim>\<open>KeyError\<close>.
\<close>

theorem read_frame_order:
  assumes "length header = 3"
    and "length payload = nat (of_char (header ! 1) * 256 + of_char (header ! 2))"
    and "length chksum = 1"
  shows "read_frame ZigBeeAPIFrames (header @ payload @ chksum @ rest) =
           Some (case payload of
                   [] \<Rightarrow> Inl IndexError
                 | b # _ \<Rightarrow>
                     (case ZigBeeAPIFrames (of_char b) of
                        None \<Rightarrow> Inl KeyError
                      | Some frame \<Rightarrow> frame payload chksum),
                 rest)"
proof -
  from list3[OF assms(1)] obtain som hi lo where hdr: "header = [som, hi, lo]"
    by blast
  from list1[OF assms(3)] obtain x where chk: "chksum = [x]" ..
  have "length payload = nat (of_char hi * 256 + of_char lo)"
    using assms(2) by (simp add: hdr)
  from read_frame_bytes[OF this, of ZigBeeAPIFrames som x rest] show ?thesis
    unfolding hdr chk by simp
qed

theorem read_frame_order_witness:
  "length [CHR 0x7E, CHR 0x00, CHR 0x02] = 3
   \<and> length [CHR 0x88, CHR 0x01]
       = nat (of_char ([CHR 0x7E, CHR 0x00, CHR 0x02] ! 1) * 256
              + of_char ([CHR 0x7E, CHR 0x00, CHR 0x02] ! 2))
   \<and> length [CHR 0x76] = 1
   \<and> read_frame storing_frames
        ([CHR 0x7E, CHR 0x00, CHR 0x02] @ [CHR 0x88, CHR 0x01] @ [CHR 0x76] @ [CHR 0x7E])
       = Some (Inr ([CHR 0x88, CHR 0x01], [CHR 0x76]), [CHR 0x7E])"
  using read_frame_order[of "[CHR 0x7E, CHR 0x00, CHR 0x02]" "[CHR 0x88, CHR 0x01]" "[CHR 0x76]"
      storing_frames "[CHR 0x7E]"]
  by (simp add: storing_frames_def)

text \<open>
  C10. \<^verbatim>\<open>read_frame\<close> unpacks the start-of-message byte and never uses it: on two
  streams that differ in the first byte only it gives the same result and leaves the same
  rest (or blocks on both).
\<close>

theorem read_frame_ignores_SOM:
  "read_frame ZigBeeAPIFrames (som # cxn) = read_frame ZigBeeAPIFrames (som' # cxn)"
  by (simp add: read_frame_def read_def unpack_from_BH_def)

end
